theory Spec2Isabelle
  imports Complex_Main "HOL-Library.AList"
begin

section \<open>Images and the OpenCV validity predicate\<close>

text \<open>
  \<^verbatim>\<open>src/face_recognition/backends/opencv.py\<close>.  A \<^verbatim>\<open>NumpyImage\<close> is a numpy array:
  the predicate reads its \<^verbatim>\<open>shape\<close> tuple and its \<^verbatim>\<open>dtype\<close> only.  The samples are
  kept as a flat list so that two arrays of one shape can differ.
\<close>

datatype np_dtype =
  np_bool | np_int8 | np_uint8 | np_int16 | np_uint16 | np_int32 | np_uint32
  | np_int64 | np_uint64 | np_float32 | np_float64

record NumpyImage =
  shape :: "nat list"
  dtype :: np_dtype
  samples :: "int list"

text \<open>
  What a call can raise.  \<open>IndexError\<close> is Python's own (a tuple read out of range);
  \<open>Raised\<close> stands for any exception coming out of an injected collaborator
  (a detector or embedder backend, the database driver).
\<close>

datatype exn = IndexError | Raised string

text \<open>Python's \<^verbatim>\<open>t[i]\<close> on a tuple, for a non-negative literal index.\<close>

definition tuple_item :: "'a list \<Rightarrow> nat \<Rightarrow> exn + 'a" where
  "tuple_item t i = (if i < length t then Inr (t ! i) else Inl IndexError)"

text \<open>
  \<^verbatim>\<open>_check_image_valid(image)\<close> of the module \<^verbatim>\<open>opencv\<close> (the predicate that
  \<^verbatim>\<open>OpenCVDetector\<close> publishes as its \<^verbatim>\<open>check_image_valid\<close>): three guards in the
  order of the source, each an early \<^verbatim>\<open>return False\<close>.  The read \<^verbatim>\<open>shape[2]\<close> is the
  only place that can raise.
\<close>

definition OpenCV_check_image_valid :: "NumpyImage \<Rightarrow> exn + bool" where
  "OpenCV_check_image_valid img =
     (if dtype img \<noteq> np_uint8 then Inr False
      else if length (shape img) \<noteq> 3 then Inr False
      else (case tuple_item (shape img) 2 of
              Inl e \<Rightarrow> Inl e
            | Inr channels \<Rightarrow>
                if channels \<notin> {1, 3} then Inr False else Inr True))"


section \<open>Service results and entities\<close>

text \<open>
  \<^verbatim>\<open>src/main_node/services/utils.py\<close>: \<^verbatim>\<open>Result\<close> carries \<^verbatim>\<open>success\<close>; \<^verbatim>\<open>Ok\<close> fixes it to
  true and adds \<^verbatim>\<open>result\<close>; \<^verbatim>\<open>Err\<close> fixes it to false and adds \<^verbatim>\<open>cause\<close>.
\<close>

datatype 'a Result = Result bool | Ok 'a | Err string

fun success :: "'a Result \<Rightarrow> bool" where
  "success (Result b) = b"
| "success (Ok r) = True"
| "success (Err c) = False"

text \<open>\<^verbatim>\<open>src/main_node/services/access_control.py\<close>: the entities and the views.\<close>

type_synonym Descriptor = "real list"

record User =
  User_id :: int
  name :: string
  surname :: string
  patronymic :: string
  position :: "string option"

record UserFaceDescriptor =
  UserFaceDescriptor_id :: int
  UserFaceDescriptor_features :: "real list"
  UserFaceDescriptor_user_id :: int

record AccessCheck =
  is_known :: bool
  have_access :: "bool option"
  user :: "User option"

record AnonymousDescriptor =
  features :: "real list"

text \<open>
  What \<^verbatim>\<open>FaceRecognizer.recognize\<close> hands back.  The service reads \<^verbatim>\<open>is_known_face\<close> and
  \<^verbatim>\<open>descriptor_id\<close>; the identifier and the distance are optional.
\<close>

record RecognitionResult =
  is_known_face :: bool
  descriptor_id :: "int option"
  distance :: "real option"

section \<open>The collaborators of the service\<close>

text \<open>
  \<^verbatim>\<open>AccessControlService\<close> receives three objects and only calls their methods.  Each
  object is a table of methods over a state of its own (\<open>'db\<close> behind the repository,
  \<open>'r\<close> behind the recognizer); every method may raise.  A method that writes returns
  the new state too, also when it raises.
\<close>

record 'db AccessControlRepository =
  get_user_by_id :: "'db \<Rightarrow> int \<Rightarrow> exn + User option"
  get_user_by_descriptor_id :: "'db \<Rightarrow> int option \<Rightarrow> exn + User option"
  check_access_permission_exist :: "'db \<Rightarrow> int \<Rightarrow> int \<Rightarrow> exn + bool"
  get_all_face_descriptors :: "'db \<Rightarrow> exn + UserFaceDescriptor list"
  update_descriptor_by_user_id :: "'db \<Rightarrow> int \<Rightarrow> real list \<Rightarrow> (exn + unit) \<times> 'db"

record 'r FaceRecognizer =
  check_image_normalized :: "NumpyImage \<Rightarrow> exn + bool"
  check_descriptor_valid :: "Descriptor \<Rightarrow> exn + bool"
  recognize :: "'r \<Rightarrow> NumpyImage \<Rightarrow> exn + RecognitionResult"
  recognize_by_descriptor :: "'r \<Rightarrow> Descriptor \<Rightarrow> exn + RecognitionResult"
  calculate_descriptor :: "NumpyImage \<Rightarrow> exn + Descriptor"
  update_descriptors :: "'r \<Rightarrow> (int \<times> Descriptor) list \<Rightarrow> (exn + unit) \<times> 'r"

record FaceImageNormalizer =
  check_image_valid :: "NumpyImage \<Rightarrow> exn + bool"
  normalize :: "NumpyImage \<Rightarrow> exn + NumpyImage option"

record ('db, 'r) AccessControlService =
  repository :: "'db AccessControlRepository"
  face_recognizer :: "'r FaceRecognizer"
  face_image_normalizer :: FaceImageNormalizer

text \<open>
  Every call that leaves the service is recorded, with the way the source makes it:
  a plain call (\<open>Inline\<close>), \<^verbatim>\<open>await\<close> on a coroutine of the repository
  (\<open>Awaited\<close>), or \<^verbatim>\<open>await to_thread(f, x)\<close> (\<open>ToThread\<close>).
\<close>

datatype dispatch = Inline | Awaited | ToThread

datatype call =
    CheckImageValid NumpyImage
  | Normalize NumpyImage
  | CheckImageNormalized NumpyImage
  | CheckDescriptorValid Descriptor
  | Recognize NumpyImage
  | RecognizeByDescriptor Descriptor
  | CalculateDescriptor NumpyImage
  | UpdateDescriptors "(int \<times> Descriptor) list"
  | GetUserById int
  | GetUserByDescriptorId "int option"
  | CheckAccessPermissionExist int int
  | GetAllFaceDescriptors
  | UpdateDescriptorByUserId int "real list"

record ('db, 'r) world =
  db :: 'db
  cache :: 'r
  calls :: "(dispatch \<times> call) list"

text \<open>
  A service method takes the world and returns its outcome (an exception that escapes,
  or a value) with the world it leaves.  \<open>bind_io\<close> is sequencing: an exception stops
  the rest, as it does in Python.
\<close>

type_synonym ('w, 'a) io = "'w \<Rightarrow> (exn + 'a) \<times> 'w"

definition return_io :: "'a \<Rightarrow> ('w, 'a) io" where
  "return_io a w = (Inr a, w)"

definition bind_io :: "('w, 'a) io \<Rightarrow> ('a \<Rightarrow> ('w, 'b) io) \<Rightarrow> ('w, 'b) io" where
  "bind_io m f w = (case m w of (Inl e, w') \<Rightarrow> (Inl e, w') | (Inr a, w') \<Rightarrow> f a w')"

definition stateless :: "dispatch \<Rightarrow> call \<Rightarrow> exn + 'a \<Rightarrow> (('db, 'r) world, 'a) io" where
  "stateless d c res w = (res, w\<lparr>calls := calls w @ [(d, c)]\<rparr>)"

definition repo_read :: "call \<Rightarrow> ('db \<Rightarrow> exn + 'a) \<Rightarrow> (('db, 'r) world, 'a) io" where
  "repo_read c f w = (f (db w), w\<lparr>calls := calls w @ [(Awaited, c)]\<rparr>)"

definition repo_write ::
  "call \<Rightarrow> ('db \<Rightarrow> (exn + 'a) \<times> 'db) \<Rightarrow> (('db, 'r) world, 'a) io" where
  "repo_write c f w =
     (case f (db w) of (res, db') \<Rightarrow> (res, w\<lparr>db := db', calls := calls w @ [(Awaited, c)]\<rparr>))"

definition recognizer_read ::
  "dispatch \<Rightarrow> call \<Rightarrow> ('r \<Rightarrow> exn + 'a) \<Rightarrow> (('db, 'r) world, 'a) io" where
  "recognizer_read d c f w = (f (cache w), w\<lparr>calls := calls w @ [(d, c)]\<rparr>)"

definition recognizer_write ::
  "dispatch \<Rightarrow> call \<Rightarrow> ('r \<Rightarrow> (exn + 'a) \<times> 'r) \<Rightarrow> (('db, 'r) world, 'a) io" where
  "recognizer_write d c f w =
     (case f (cache w) of (res, r') \<Rightarrow> (res, w\<lparr>cache := r', calls := calls w @ [(d, c)]\<rparr>))"

text \<open>Python's \<^verbatim>\<open>str\<close> of an integer and of an optional integer, for the f-strings.\<close>

fun str_nat :: "nat \<Rightarrow> string" where
  "str_nat n =
     (if n < 10 then [char_of (48 + n)] else str_nat (n div 10) @ [char_of (48 + n mod 10)])"

definition str_int :: "int \<Rightarrow> string" where
  "str_int i = (if i < 0 then CHR ''-'' # str_nat (nat (- i)) else str_nat (nat i))"

definition str_optional_int :: "int option \<Rightarrow> string" where
  "str_optional_int v = (case v of None \<Rightarrow> ''None'' | Some i \<Rightarrow> str_int i)"


section \<open>AccessControlService\<close>

text \<open>
  \<^verbatim>\<open>check_access_by_face(room_id, image)\<close>: the image must already be a normalized face
  crop; recognition runs in a worker thread; a known descriptor that no user owns is an
  error.
\<close>

definition AccessControlService_check_access_by_face ::
  "('db, 'r) AccessControlService \<Rightarrow> int \<Rightarrow> NumpyImage
     \<Rightarrow> (('db, 'r) world, AccessCheck Result) io" where
  "AccessControlService_check_access_by_face self room_id img =
     bind_io (stateless Inline (CheckImageNormalized img)
                (check_image_normalized (face_recognizer self) img)) (\<lambda>normalized.
     if \<not> normalized then return_io (Err ''Provided image is not normalized.'')
     else
     bind_io (recognizer_read ToThread (Recognize img)
                (\<lambda>r. recognize (face_recognizer self) r img)) (\<lambda>result.
     if \<not> is_known_face result
     then return_io (Ok \<lparr>is_known = False, have_access = None, user = None\<rparr>)
     else
     bind_io (repo_read (GetUserByDescriptorId (descriptor_id result))
                (\<lambda>d. get_user_by_descriptor_id (repository self) d (descriptor_id result)))
       (\<lambda>found.
     case found of
       None \<Rightarrow>
         return_io (Err (''Calculated descriptor is known but not bound to user. (descriptor_id = ''
                         @ str_optional_int (descriptor_id result) @ '')''))
     | Some u \<Rightarrow>
         bind_io (repo_read (CheckAccessPermissionExist (User_id u) room_id)
                    (\<lambda>d. check_access_permission_exist (repository self) d (User_id u) room_id))
           (\<lambda>granted.
         return_io (Ok \<lparr>is_known = True, have_access = Some granted, user = Some u\<rparr>)))))"

text \<open>
  \<^verbatim>\<open>check_access_by_descriptor(room_id, descriptor)\<close>: the same flow from a descriptor;
  the match against the cache is a plain call.
\<close>

definition AccessControlService_check_access_by_descriptor ::
  "('db, 'r) AccessControlService \<Rightarrow> int \<Rightarrow> Descriptor
     \<Rightarrow> (('db, 'r) world, AccessCheck Result) io" where
  "AccessControlService_check_access_by_descriptor self room_id descriptor =
     bind_io (stateless Inline (CheckDescriptorValid descriptor)
                (check_descriptor_valid (face_recognizer self) descriptor)) (\<lambda>valid.
     if \<not> valid then return_io (Err ''Provided descriptor is invalid.'')
     else
     bind_io (recognizer_read Inline (RecognizeByDescriptor descriptor)
                (\<lambda>r. recognize_by_descriptor (face_recognizer self) r descriptor)) (\<lambda>result.
     if \<not> is_known_face result
     then return_io (Ok \<lparr>is_known = False, have_access = None, user = None\<rparr>)
     else
     bind_io (repo_read (GetUserByDescriptorId (descriptor_id result))
                (\<lambda>d. get_user_by_descriptor_id (repository self) d (descriptor_id result)))
       (\<lambda>found.
     case found of
       None \<Rightarrow>
         return_io (Err (''Provided descriptor is known, but not bound to user. (descriptor_id = ''
                         @ str_optional_int (descriptor_id result) @ '')''))
     | Some u \<Rightarrow>
         bind_io (repo_read (CheckAccessPermissionExist (User_id u) room_id)
                    (\<lambda>d. check_access_permission_exist (repository self) d (User_id u) room_id))
           (\<lambda>granted.
         return_io (Ok \<lparr>is_known = True, have_access = Some granted, user = Some u\<rparr>)))))"

text \<open>
  \<^verbatim>\<open>calculate_descriptor(image)\<close>: validity first, then \<^verbatim>\<open>normalize\<close> and
  \<^verbatim>\<open>calculate_descriptor\<close> of the recognizer, each in a worker thread.  \<^verbatim>\<open>None\<close> from
  \<^verbatim>\<open>normalize\<close> is answered with \<^verbatim>\<open>Err\<close>.
\<close>

definition AccessControlService_calculate_descriptor ::
  "('db, 'r) AccessControlService \<Rightarrow> NumpyImage
     \<Rightarrow> (('db, 'r) world, AnonymousDescriptor Result) io" where
  "AccessControlService_calculate_descriptor self img =
     bind_io (stateless Inline (CheckImageValid img)
                (check_image_valid (face_image_normalizer self) img)) (\<lambda>valid.
     if \<not> valid then return_io (Err ''Provided image is invalid.'')
     else
     bind_io (stateless ToThread (Normalize img)
                (normalize (face_image_normalizer self) img)) (\<lambda>normalized_image.
     case normalized_image of
       None \<Rightarrow> return_io (Err ''Can't normalize image. Maybe there is no face.'')
     | Some n \<Rightarrow>
         bind_io (stateless ToThread (CalculateDescriptor n)
                    (calculate_descriptor (face_recognizer self) n)) (\<lambda>descriptor.
         return_io (Ok \<lparr>features = descriptor\<rparr>))))"

text \<open>
  \<^verbatim>\<open>_load_descriptors()\<close>: read every stored descriptor, pair each \<^verbatim>\<open>id\<close> with its
  \<^verbatim>\<open>features\<close>, and give the whole sequence to \<^verbatim>\<open>update_descriptors\<close>.
\<close>

definition AccessControlService_load_descriptors ::
  "('db, 'r) AccessControlService \<Rightarrow> (('db, 'r) world, unit) io" where
  "AccessControlService_load_descriptors self =
     bind_io (repo_read GetAllFaceDescriptors
                (\<lambda>d. get_all_face_descriptors (repository self) d)) (\<lambda>descriptors.
     let numpy_descriptors =
           map (\<lambda>d. (UserFaceDescriptor_id d, UserFaceDescriptor_features d)) descriptors
     in recognizer_write Inline (UpdateDescriptors numpy_descriptors)
          (\<lambda>r. update_descriptors (face_recognizer self) r numpy_descriptors))"

text \<open>\<^verbatim>\<open>init()\<close>: the start-up hook of the service.\<close>

definition AccessControlService_init ::
  "('db, 'r) AccessControlService \<Rightarrow> (('db, 'r) world, unit) io" where
  "AccessControlService_init self = AccessControlService_load_descriptors self"

text \<open>
  \<^verbatim>\<open>update_user_descriptor(user_id, descriptor)\<close>: an unknown user is an error and
  nothing is written; otherwise the descriptor is stored and the cache reloaded.
\<close>

definition AccessControlService_update_user_descriptor ::
  "('db, 'r) AccessControlService \<Rightarrow> int \<Rightarrow> Descriptor
     \<Rightarrow> (('db, 'r) world, unit Result) io" where
  "AccessControlService_update_user_descriptor self user_id descriptor =
     bind_io (repo_read (GetUserById user_id)
                (\<lambda>d. get_user_by_id (repository self) d user_id)) (\<lambda>found.
     case found of
       None \<Rightarrow> return_io (Err ''Unknown user id.'')
     | Some u \<Rightarrow>
         bind_io (repo_write (UpdateDescriptorByUserId user_id descriptor)
                    (\<lambda>d. update_descriptor_by_user_id (repository self) d user_id descriptor))
           (\<lambda>_.
         bind_io (AccessControlService_load_descriptors self) (\<lambda>_.
         return_io (Result True))))"


section \<open>The repository over PostgreSQL\<close>

text \<open>
  \<^verbatim>\<open>src/main_node/repositories/access_control_repository.py\<close>.  The tables the service's
  flows touch, as lists of rows.  The schema is not among the sources: the key of a new
  \<^verbatim>\<open>UserFaceDescriptor\<close> row, which the \<^verbatim>\<open>insert\<close> leaves to the database, is drawn from a
  counter.
\<close>

record database =
  User_table :: "User list"
  UserFaceDescriptor_table :: "UserFaceDescriptor list"
  UserRoomAccessPermission_table :: "(int \<times> int) list"
  UserFaceDescriptor_id_seq :: int

text \<open>\<^verbatim>\<open>select * from "User" where "id" = $1\<close>, first row or \<^verbatim>\<open>None\<close>.\<close>

definition Repository_get_user_by_id :: "database \<Rightarrow> int \<Rightarrow> exn + User option" where
  "Repository_get_user_by_id d user_id =
     Inr (find (\<lambda>u. User_id u = user_id) (User_table d))"

text \<open>
  \<^verbatim>\<open>select * from "User" where "id" = (select "user_id" from "UserFaceDescriptor"
  where "id" = $1)\<close>: a scalar subquery.  No row (or a null parameter) selects nothing;
  more than one row is an error of the database.
\<close>

definition Repository_get_user_by_descriptor_id ::
  "database \<Rightarrow> int option \<Rightarrow> exn + User option" where
  "Repository_get_user_by_descriptor_id d descriptor_id' =
     (case descriptor_id' of
        None \<Rightarrow> Inr None
      | Some k \<Rightarrow>
          (case map UserFaceDescriptor_user_id
                  (filter (\<lambda>r. UserFaceDescriptor_id r = k) (UserFaceDescriptor_table d)) of
             [] \<Rightarrow> Inr None
           | [owner] \<Rightarrow> Inr (find (\<lambda>u. User_id u = owner) (User_table d))
           | _ \<Rightarrow> Inl (Raised ''more than one row returned by a subquery used as an expression'')))"

text \<open>
  \<^verbatim>\<open>select from "UserRoomAccessPermission" where "room_id" = $1 and "user_id" = $2\<close>,
  called with \<^verbatim>\<open>(room_id, user_id)\<close>.
\<close>

definition Repository_check_access_permission_exist ::
  "database \<Rightarrow> int \<Rightarrow> int \<Rightarrow> exn + bool" where
  "Repository_check_access_permission_exist d user_id room_id =
     Inr ((room_id, user_id) \<in> set (UserRoomAccessPermission_table d))"

text \<open>\<^verbatim>\<open>select * from "UserFaceDescriptor"\<close>: every row.\<close>

definition Repository_get_all_face_descriptors ::
  "database \<Rightarrow> exn + UserFaceDescriptor list" where
  "Repository_get_all_face_descriptors d = Inr (UserFaceDescriptor_table d)"

text \<open>
  \<^verbatim>\<open>delete from "UserFaceDescriptor" where "user_id" = $1\<close>, then
  \<^verbatim>\<open>insert into "UserFaceDescriptor" ("user_id", "features") values ($1, $2)\<close>.
\<close>

definition Repository_update_descriptor_by_user_id ::
  "database \<Rightarrow> int \<Rightarrow> real list \<Rightarrow> (exn + unit) \<times> database" where
  "Repository_update_descriptor_by_user_id d user_id descriptor =
     (Inr (),
      d\<lparr>UserFaceDescriptor_table :=
           filter (\<lambda>r. UserFaceDescriptor_user_id r \<noteq> user_id) (UserFaceDescriptor_table d)
           @ [\<lparr>UserFaceDescriptor_id = UserFaceDescriptor_id_seq d,
               UserFaceDescriptor_features = descriptor,
               UserFaceDescriptor_user_id = user_id\<rparr>],
         UserFaceDescriptor_id_seq := UserFaceDescriptor_id_seq d + 1\<rparr>)"

definition Repository_object :: "database AccessControlRepository" where
  "Repository_object =
     \<lparr>get_user_by_id = Repository_get_user_by_id,
      get_user_by_descriptor_id = Repository_get_user_by_descriptor_id,
      check_access_permission_exist = Repository_check_access_permission_exist,
      get_all_face_descriptors = Repository_get_all_face_descriptors,
      update_descriptor_by_user_id = Repository_update_descriptor_by_user_id\<rparr>"

section \<open>The recognition engine\<close>

text \<open>
  The module \<^verbatim>\<open>src/face_recognition/two_step.py\<close> (the classes \<^verbatim>\<open>FaceImageNormalizer\<close>
  and \<^verbatim>\<open>FaceRecognizer\<close>) and the dlib backends are not among the sources.  What follows
  is written from the specification, with the backends (detector, face cropper,
  embedder), the canonical size, the descriptor length and the acceptance threshold as
  parameters.
\<close>

datatype Rectangle = Rectangle (rect_x: nat) (rect_y: nat) (rect_width: nat) (rect_height: nat)

definition area :: "Rectangle \<Rightarrow> nat" where
  "area r = rect_width r * rect_height r"

text \<open>
  Modelled from the spec: the choice of the face inside \<^verbatim>\<open>FaceImageNormalizer.normalize\<close>
  (missing with \<^verbatim>\<open>two_step.py\<close>).  The rectangle of maximum area wins; among equal
  areas the one the detector returned first.
\<close>

fun largest_face :: "Rectangle \<Rightarrow> Rectangle list \<Rightarrow> Rectangle" where
  "largest_face best [] = best"
| "largest_face best (r # rs) = largest_face (if area best < area r then r else best) rs"

text \<open>
  Modelled from the spec: \<^verbatim>\<open>FaceImageNormalizer.normalize\<close> (missing with
  \<^verbatim>\<open>two_step.py\<close>).  Detection runs first; zero faces is the no-face outcome \<open>None\<close>, a
  normal result; otherwise the largest face is cropped and aligned.  A fault of a
  backend propagates.
\<close>

definition FaceImageNormalizer_normalize ::
  "(NumpyImage \<Rightarrow> exn + Rectangle list) \<Rightarrow> (NumpyImage \<Rightarrow> Rectangle \<Rightarrow> exn + NumpyImage)
     \<Rightarrow> NumpyImage \<Rightarrow> exn + NumpyImage option" where
  "FaceImageNormalizer_normalize find_faces crop_and_align img =
     (case find_faces img of
        Inl e \<Rightarrow> Inl e
      | Inr [] \<Rightarrow> Inr None
      | Inr (r # rs) \<Rightarrow>
          (case crop_and_align img (largest_face r rs) of
             Inl e \<Rightarrow> Inl e
           | Inr n \<Rightarrow> Inr (Some n)))"

text \<open>
  Modelled from the spec: the \<^verbatim>\<open>FaceImageNormalizer\<close> object (missing with
  \<^verbatim>\<open>two_step.py\<close>): the raw-image validity check of the detector and \<^verbatim>\<open>normalize\<close>.
\<close>

definition FaceImageNormalizer_object ::
  "(NumpyImage \<Rightarrow> exn + bool) \<Rightarrow> (NumpyImage \<Rightarrow> exn + Rectangle list)
     \<Rightarrow> (NumpyImage \<Rightarrow> Rectangle \<Rightarrow> exn + NumpyImage) \<Rightarrow> FaceImageNormalizer" where
  "FaceImageNormalizer_object valid find_faces crop_and_align =
     \<lparr>check_image_valid = valid,
      normalize = FaceImageNormalizer_normalize find_faces crop_and_align\<rparr>"

text \<open>
  The cache is the mapping from enrolled id to descriptor, kept as Python keeps a
  \<^verbatim>\<open>dict\<close>: one entry per key, in insertion order.
\<close>

type_synonym DescriptorCache = "(int \<times> Descriptor) list"

text \<open>
  Modelled from the spec: \<^verbatim>\<open>FaceRecognizer.update_descriptors(pairs)\<close> (missing with
  \<^verbatim>\<open>two_step.py\<close>).  A new map is built from the pairs alone (a later pair of the same
  id replaces the earlier one) and takes the place of the old one.
\<close>

definition FaceRecognizer_update_descriptors ::
  "DescriptorCache \<Rightarrow> (int \<times> Descriptor) list \<Rightarrow> DescriptorCache" where
  "FaceRecognizer_update_descriptors old pairs =
     fold (\<lambda>(k, v) new. AList.update k v new) pairs []"

text \<open>
  Modelled from the spec: the distance of \<^verbatim>\<open>FaceRecognizer.recognize_by_descriptor\<close>
  (missing with \<^verbatim>\<open>two_step.py\<close>): Euclidean, over the reals.
\<close>

definition euclidean_distance :: "Descriptor \<Rightarrow> Descriptor \<Rightarrow> real" where
  "euclidean_distance a b = sqrt (\<Sum>(p, q) \<leftarrow> zip a b. (p - q)\<^sup>2)"

text \<open>
  Modelled from the spec: the scan of \<^verbatim>\<open>FaceRecognizer.recognize_by_descriptor\<close> (missing
  with \<^verbatim>\<open>two_step.py\<close>).  Every cached descriptor is measured; the candidate kept is the
  one at minimum distance, and among candidates at that distance the one of lowest id.
\<close>

fun nearest :: "Descriptor \<Rightarrow> DescriptorCache \<Rightarrow> (int \<times> real) option" where
  "nearest q [] = None"
| "nearest q ((i, d) # rest) =
     (case nearest q rest of
        None \<Rightarrow> Some (i, euclidean_distance q d)
      | Some (j, m) \<Rightarrow>
          if euclidean_distance q d < m \<or> (euclidean_distance q d = m \<and> i \<le> j)
          then Some (i, euclidean_distance q d)
          else Some (j, m))"

text \<open>
  Modelled from the spec: \<^verbatim>\<open>FaceRecognizer.recognize_by_descriptor(descriptor)\<close> (missing
  with \<^verbatim>\<open>two_step.py\<close>).  The nearest candidate is the match when its distance is below
  the acceptance threshold; otherwise, and on an empty cache, the face is unknown.
\<close>

definition FaceRecognizer_recognize_by_descriptor ::
  "real \<Rightarrow> DescriptorCache \<Rightarrow> Descriptor \<Rightarrow> RecognitionResult" where
  "FaceRecognizer_recognize_by_descriptor threshold c q =
     (case nearest q c of
        None \<Rightarrow> \<lparr>is_known_face = False, descriptor_id = None, distance = None\<rparr>
      | Some (i, m) \<Rightarrow>
          if m < threshold
          then \<lparr>is_known_face = True, descriptor_id = Some i, distance = Some m\<rparr>
          else \<lparr>is_known_face = False, descriptor_id = None, distance = None\<rparr>)"

text \<open>
  Modelled from the spec: \<^verbatim>\<open>FaceRecognizer.check_descriptor_valid\<close> and
  \<^verbatim>\<open>FaceRecognizer.check_image_normalized\<close> (missing with \<^verbatim>\<open>two_step.py\<close>).  A descriptor
  is valid when its length is the fixed dimension (a real number is always finite); a
  normalized image passes the raw-image checks and has the canonical height and width.
\<close>

definition FaceRecognizer_check_descriptor_valid :: "nat \<Rightarrow> Descriptor \<Rightarrow> bool" where
  "FaceRecognizer_check_descriptor_valid dimension descriptor =
     (length descriptor = dimension)"

definition FaceRecognizer_check_image_normalized ::
  "nat \<times> nat \<Rightarrow> NumpyImage \<Rightarrow> exn + bool" where
  "FaceRecognizer_check_image_normalized canonical img =
     (case OpenCV_check_image_valid img of
        Inl e \<Rightarrow> Inl e
      | Inr ok \<Rightarrow> Inr (ok \<and> take 2 (shape img) = [fst canonical, snd canonical]))"

text \<open>
  Modelled from the spec: the \<^verbatim>\<open>FaceRecognizer\<close> object (missing with \<^verbatim>\<open>two_step.py\<close>):
  \<^verbatim>\<open>recognize\<close> embeds and then behaves as \<^verbatim>\<open>recognize_by_descriptor\<close>.
\<close>

definition FaceRecognizer_object ::
  "(NumpyImage \<Rightarrow> exn + Descriptor) \<Rightarrow> nat \<times> nat \<Rightarrow> nat \<Rightarrow> real
     \<Rightarrow> DescriptorCache FaceRecognizer" where
  "FaceRecognizer_object embedder canonical dimension threshold =
     \<lparr>check_image_normalized = FaceRecognizer_check_image_normalized canonical,
      check_descriptor_valid = (\<lambda>d. Inr (FaceRecognizer_check_descriptor_valid dimension d)),
      recognize = (\<lambda>c img. case embedder img of
                      Inl e \<Rightarrow> Inl e
                    | Inr q \<Rightarrow> Inr (FaceRecognizer_recognize_by_descriptor threshold c q)),
      recognize_by_descriptor =
        (\<lambda>c q. Inr (FaceRecognizer_recognize_by_descriptor threshold c q)),
      calculate_descriptor = embedder,
      update_descriptors = (\<lambda>c pairs. (Inr (), FaceRecognizer_update_descriptors c pairs))\<rparr>"

section \<open>Where the calls run\<close>

text \<open>
  The calls that detect or embed (\<^verbatim>\<open>normalize\<close>, which runs the detector, and
  \<^verbatim>\<open>calculate_descriptor\<close> and \<^verbatim>\<open>recognize\<close>, which run the embedder) are the CPU-bound
  ones.  The validity checks and the reads and writes of the descriptor cache are the
  cheap ones.  The service has no call on a detector of its own: detection happens
  inside \<^verbatim>\<open>normalize\<close>.
\<close>

fun cpu_bound :: "call \<Rightarrow> bool" where
  "cpu_bound (Normalize img) = True"
| "cpu_bound (CalculateDescriptor img) = True"
| "cpu_bound (Recognize img) = True"
| "cpu_bound c = False"

fun cheap :: "call \<Rightarrow> bool" where
  "cheap (CheckImageValid img) = True"
| "cheap (CheckImageNormalized img) = True"
| "cheap (CheckDescriptorValid d) = True"
| "cheap (RecognizeByDescriptor d) = True"
| "cheap (UpdateDescriptors pairs) = True"
| "cheap c = False"

text \<open>
  A log keeps the discipline when each CPU-bound call in it went through
  \<^verbatim>\<open>to_thread\<close> and each plain call in it is a cheap one.
\<close>

definition dispatch_discipline :: "(dispatch \<times> call) list \<Rightarrow> bool" where
  "dispatch_discipline entries =
     list_all (\<lambda>(d, c). (cpu_bound c \<longrightarrow> d = ToThread) \<and> (d = Inline \<longrightarrow> cheap c))
       entries"

text \<open>The calls that a run from the world \<open>w\<close> to the world \<open>w'\<close> has added.\<close>

definition new_calls :: "('db, 'r) world \<Rightarrow> ('db, 'r) world \<Rightarrow> (dispatch \<times> call) list" where
  "new_calls w w' = drop (length (calls w)) (calls w')"

section \<open>Concrete inputs\<close>

text \<open>
  A grayscale picture decodes to an array of rank 2, a colour picture to rank 3 with
  three channels.  Both hold unsigned bytes.
\<close>

definition grayscale_image :: NumpyImage where
  "grayscale_image = \<lparr>shape = [2, 2], dtype = np_uint8, samples = [10, 20, 30, 40]\<rparr>"

definition colour_image :: NumpyImage where
  "colour_image =
     \<lparr>shape = [2, 2, 3], dtype = np_uint8,
      samples = [10, 20, 30, 40, 50, 60, 70, 80, 90, 100, 110, 120]\<rparr>"

text \<open>
  Backends for the examples: a detector that finds no face, one that finds two faces,
  a cropper that returns the picture as it is, an embedder that maps every crop to one
  descriptor.
\<close>

definition blind_detector :: "NumpyImage \<Rightarrow> exn + Rectangle list" where
  "blind_detector img = Inr []"

definition keen_detector :: "NumpyImage \<Rightarrow> exn + Rectangle list" where
  "keen_detector img = Inr [Rectangle 0 0 1 1, Rectangle 0 0 2 2]"

definition plain_cropper :: "NumpyImage \<Rightarrow> Rectangle \<Rightarrow> exn + NumpyImage" where
  "plain_cropper img r = Inr img"

definition constant_embedder :: "NumpyImage \<Rightarrow> exn + Descriptor" where
  "constant_embedder img = Inr [0, 0]"

text \<open>
  A service over the repository of the sources, with the engine of the specification:
  canonical size 2 by 2, descriptors of length 2, threshold 0.6.
\<close>

definition example_service :: "(NumpyImage \<Rightarrow> exn + Rectangle list)
    \<Rightarrow> (database, DescriptorCache) AccessControlService" where
  "example_service detector =
     \<lparr>repository = Repository_object,
      face_recognizer = FaceRecognizer_object constant_embedder (2, 2) 2 (6 / 10),
      face_image_normalizer =
        FaceImageNormalizer_object OpenCV_check_image_valid detector plain_cropper\<rparr>"

definition no_face_service :: "(database, DescriptorCache) AccessControlService" where
  "no_face_service = example_service blind_detector"

definition face_service :: "(database, DescriptorCache) AccessControlService" where
  "face_service = example_service keen_detector"

definition user_ann :: User where
  "user_ann =
     \<lparr>User_id = 1, name = ''Ann'', surname = ''Lee'', patronymic = ''May'', position = None\<rparr>"

text \<open>
  Two databases: in the first the descriptor 7 belongs to the user 1, who may enter the
  room 5; in the second the descriptor 7 names a user that does not exist.
\<close>

definition example_database :: database where
  "example_database =
     \<lparr>User_table = [user_ann],
      UserFaceDescriptor_table =
        [\<lparr>UserFaceDescriptor_id = 7, UserFaceDescriptor_features = [0, 0],
          UserFaceDescriptor_user_id = 1\<rparr>],
      UserRoomAccessPermission_table = [(5, 1)],
      UserFaceDescriptor_id_seq = 8\<rparr>"

definition orphan_database :: database where
  "orphan_database =
     \<lparr>User_table = [user_ann],
      UserFaceDescriptor_table =
        [\<lparr>UserFaceDescriptor_id = 7, UserFaceDescriptor_features = [0, 0],
          UserFaceDescriptor_user_id = 2\<rparr>],
      UserRoomAccessPermission_table = [(5, 1)],
      UserFaceDescriptor_id_seq = 8\<rparr>"

definition example_world :: "database \<Rightarrow> DescriptorCache \<Rightarrow> (database, DescriptorCache) world" where
  "example_world d c = \<lparr>db = d, cache = c, calls = []\<rparr>"

definition fresh_world :: "(database, DescriptorCache) world" where
  "fresh_world = example_world example_database []"

definition orphan_world :: "(database, DescriptorCache) world" where
  "orphan_world = example_world orphan_database [(7, [0, 0])]"

definition enrolled_world :: "(database, DescriptorCache) world" where
  "enrolled_world = example_world example_database [(7, [0, 0])]"

text \<open>
  A cache in which the ids 1 and 2 hold the same descriptor and the id 3 holds one at
  distance 2 from it; then the same entries in another order.
\<close>

definition tied_cache :: DescriptorCache where
  "tied_cache = [(2, [0, 0]), (1, [0, 0]), (3, [2, 0])]"

definition tied_cache_reordered :: DescriptorCache where
  "tied_cache_reordered = [(3, [2, 0]), (1, [0, 0]), (2, [0, 0])]"

section \<open>Properties\<close>

text \<open>
  C3.  \<open>OpenCV_check_image_valid\<close> answers true exactly when the element type is unsigned
  8-bit, the rank is 3 and the third component of the shape is 1 or 3, and it raises on
  no array at all: the result is always a normal boolean.
\<close>

theorem OpenCV_check_image_valid_iff:
  "OpenCV_check_image_valid img =
     Inr (dtype img = np_uint8 \<and> length (shape img) = 3
          \<and> (shape img ! 2 = 1 \<or> shape img ! 2 = 3))"
  by (simp add: OpenCV_check_image_valid_def tuple_item_def)

subsection \<open>Facts about the concrete inputs\<close>

lemma OpenCV_grayscale: "OpenCV_check_image_valid grayscale_image = Inr False"
  by (simp add: OpenCV_check_image_valid_def grayscale_image_def)

lemma OpenCV_colour: "OpenCV_check_image_valid colour_image = Inr True"
  by (simp add: OpenCV_check_image_valid_def tuple_item_def colour_image_def)

lemma str_int_7: "str_int 7 = ''7''"
  by code_simp

subsection \<open>The validity gates of the service\<close>

text \<open>
  C4.  When the image fails the validity check of the normalizer (the check on element
  type, rank and channel count), \<open>AccessControlService_calculate_descriptor\<close> returns
  the error result at once: the only call it has made is the check itself, so neither
  \<open>normalize\<close> nor \<open>calculate_descriptor\<close> of the recognizer has run.
\<close>

theorem calculate_descriptor_rejects_invalid_image:
  assumes "check_image_valid (face_image_normalizer self) img = Inr False"
  shows "AccessControlService_calculate_descriptor self img w =
           (Inr (Err ''Provided image is invalid.''),
            w\<lparr>calls := calls w @ [(Inline, CheckImageValid img)]\<rparr>)"
  using assms by (simp add: AccessControlService_calculate_descriptor_def
          return_io_def bind_io_def stateless_def)

theorem calculate_descriptor_rejects_invalid_image_witness:
  "AccessControlService_calculate_descriptor no_face_service grayscale_image fresh_world =
     (Inr (Err ''Provided image is invalid.''),
      fresh_world\<lparr>calls := [(Inline, CheckImageValid grayscale_image)]\<rparr>)"
proof -
  have invalid:
    "check_image_valid (face_image_normalizer no_face_service) grayscale_image = Inr False"
    by (simp add: no_face_service_def example_service_def FaceImageNormalizer_object_def
          OpenCV_grayscale)
  from calculate_descriptor_rejects_invalid_image [OF invalid, of fresh_world]
  show ?thesis by (simp add: fresh_world_def example_world_def)
qed

text \<open>
  C9.  When the image fails \<open>check_image_normalized\<close>,
  \<open>AccessControlService_check_access_by_face\<close> returns the error result with the
  cause \<^verbatim>\<open>Provided image is not normalized.\<close> and the only call it has made is that
  check: no recognition and no repository call.  And whatever the image, the flow
  never calls \<open>normalize\<close>: a \<open>Normalize\<close> entry in the log after the call was there
  before it.
\<close>

theorem check_access_by_face_needs_normalized_image:
  "(check_image_normalized (face_recognizer self) img = Inr False \<longrightarrow>
      AccessControlService_check_access_by_face self room_id img w =
        (Inr (Err ''Provided image is not normalized.''),
         w\<lparr>calls := calls w @ [(Inline, CheckImageNormalized img)]\<rparr>))
   \<and> ((d, Normalize x) \<in> set (calls (snd (AccessControlService_check_access_by_face
                                              self room_id img w)))
        \<longrightarrow> (d, Normalize x) \<in> set (calls w))"
proof (intro conjI impI)
  assume "check_image_normalized (face_recognizer self) img = Inr False"
  then show "AccessControlService_check_access_by_face self room_id img w =
        (Inr (Err ''Provided image is not normalized.''),
         w\<lparr>calls := calls w @ [(Inline, CheckImageNormalized img)]\<rparr>)"
    by (simp add: AccessControlService_check_access_by_face_def
          return_io_def bind_io_def stateless_def
          recognizer_read_def repo_read_def)
next
  assume "(d, Normalize x) \<in> set (calls (snd (AccessControlService_check_access_by_face
                                              self room_id img w)))"
  then show "(d, Normalize x) \<in> set (calls w)"
    by (auto simp add: AccessControlService_check_access_by_face_def
          return_io_def bind_io_def stateless_def
          recognizer_read_def repo_read_def
          split: sum.splits if_splits option.splits prod.splits)
qed

theorem check_access_by_face_needs_normalized_image_witness:
  "AccessControlService_check_access_by_face no_face_service 5 grayscale_image fresh_world =
     (Inr (Err ''Provided image is not normalized.''),
      fresh_world\<lparr>calls := [(Inline, CheckImageNormalized grayscale_image)]\<rparr>)"
proof -
  have rejected:
    "check_image_normalized (face_recognizer no_face_service) grayscale_image = Inr False"
    by (simp add: no_face_service_def example_service_def FaceRecognizer_object_def
          FaceRecognizer_check_image_normalized_def OpenCV_grayscale)
  from check_access_by_face_needs_normalized_image
         [of no_face_service grayscale_image 5 fresh_world]
       rejected
  show ?thesis by (simp add: fresh_world_def example_world_def)
qed

subsection \<open>An image without a face\<close>

text \<open>
  C2, as the code has it.  \<open>FaceImageNormalizer_normalize\<close> on an image in which the
  detector finds no face returns the no-face outcome \<open>None\<close> as a normal result, with
  no exception.  \<open>AccessControlService_calculate_descriptor\<close> on a valid image for
  which \<open>normalize\<close> gives \<open>None\<close> returns, with no exception, the error result
  \<^verbatim>\<open>Err\<close> with the cause \<^verbatim>\<open>Can't normalize image. Maybe there is no face.\<close>; it has
  called the validity check and \<open>normalize\<close> and nothing else.
\<close>

theorem calculate_descriptor_no_face_is_error_result:
  "(find_faces img = Inr [] \<longrightarrow>
      FaceImageNormalizer_normalize find_faces crop_and_align img = Inr None)
   \<and> (check_image_valid (face_image_normalizer self) img = Inr True
        \<and> normalize (face_image_normalizer self) img = Inr None \<longrightarrow>
        AccessControlService_calculate_descriptor self img w =
          (Inr (Err ''Can't normalize image. Maybe there is no face.''),
           w\<lparr>calls := calls w @ [(Inline, CheckImageValid img), (ToThread, Normalize img)]\<rparr>))"
  by (simp add: FaceImageNormalizer_normalize_def
        AccessControlService_calculate_descriptor_def
          return_io_def bind_io_def stateless_def)

theorem calculate_descriptor_no_face_is_error_result_witness:
  "FaceImageNormalizer_normalize blind_detector plain_cropper colour_image = Inr None
   \<and> AccessControlService_calculate_descriptor no_face_service colour_image fresh_world =
       (Inr (Err ''Can't normalize image. Maybe there is no face.''),
        fresh_world\<lparr>calls := [(Inline, CheckImageValid colour_image),
                               (ToThread, Normalize colour_image)]\<rparr>)"
proof -
  have none: "blind_detector colour_image = Inr []"
    by (simp add: blind_detector_def)
  have valid:
    "check_image_valid (face_image_normalizer no_face_service) colour_image = Inr True"
    by (simp add: no_face_service_def example_service_def FaceImageNormalizer_object_def
          OpenCV_colour)
  note inst = calculate_descriptor_no_face_is_error_result
               [of blind_detector colour_image plain_cropper no_face_service fresh_world]
  from inst none
  have n: "FaceImageNormalizer_normalize blind_detector plain_cropper colour_image = Inr None"
    by simp
  then have "normalize (face_image_normalizer no_face_service) colour_image = Inr None"
    by (simp add: no_face_service_def example_service_def FaceImageNormalizer_object_def)
  with inst valid n show ?thesis
    by (simp add: fresh_world_def example_world_def)
qed

text \<open>
  C2 as it is written fails: a valid colour image in which the detector finds no face
  is answered with \<^verbatim>\<open>Err\<close>, whose \<^verbatim>\<open>success\<close> is false.
\<close>

theorem calculate_descriptor_no_face_counterexample:
  "OpenCV_check_image_valid colour_image = Inr True
   \<and> blind_detector colour_image = Inr []
   \<and> fst (AccessControlService_calculate_descriptor no_face_service colour_image fresh_world)
       = Inr (Err ''Can't normalize image. Maybe there is no face.'')
   \<and> \<not> success (Err ''Can't normalize image. Maybe there is no face.''
                   :: AnonymousDescriptor Result)"
  by (simp add: OpenCV_colour blind_detector_def AccessControlService_calculate_descriptor_def
        return_io_def bind_io_def stateless_def
        no_face_service_def example_service_def FaceImageNormalizer_object_def
        FaceImageNormalizer_normalize_def)

subsection \<open>A known descriptor that no user owns\<close>

text \<open>
  C10.  In \<open>AccessControlService_check_access_by_face\<close> and in
  \<open>AccessControlService_check_access_by_descriptor\<close>: when recognition reports a
  known face and the repository finds no user for the matched descriptor id, the
  result is \<^verbatim>\<open>Err\<close> with a cause that names the descriptor id; and an \<^verbatim>\<open>Ok\<close> result whose
  \<^verbatim>\<open>AccessCheck\<close> has \<^verbatim>\<open>is_known\<close> true comes only from a recognition that reported a known
  face whose descriptor id the repository resolved to a user, the one in the result.
\<close>

theorem known_descriptor_without_user_is_error:
  "(check_image_normalized (face_recognizer self) img = Inr True
      \<and> recognize (face_recognizer self) (cache w) img = Inr result
      \<and> is_known_face result
      \<and> get_user_by_descriptor_id (repository self) (db w) (descriptor_id result) = Inr None
    \<longrightarrow> fst (AccessControlService_check_access_by_face self room_id img w) =
          Inr (Err (''Calculated descriptor is known but not bound to user. (descriptor_id = ''
                    @ str_optional_int (descriptor_id result) @ '')'')))
   \<and> (check_descriptor_valid (face_recognizer self) descriptor = Inr True
      \<and> recognize_by_descriptor (face_recognizer self) (cache w) descriptor = Inr result'
      \<and> is_known_face result'
      \<and> get_user_by_descriptor_id (repository self) (db w) (descriptor_id result') = Inr None
    \<longrightarrow> fst (AccessControlService_check_access_by_descriptor self room_id descriptor w) =
          Inr (Err (''Provided descriptor is known, but not bound to user. (descriptor_id = ''
                    @ str_optional_int (descriptor_id result') @ '')'')))
   \<and> (fst (AccessControlService_check_access_by_face self room_id img w) = Inr (Ok ac)
      \<and> is_known ac
    \<longrightarrow> (\<exists>r u. recognize (face_recognizer self) (cache w) img = Inr r
            \<and> is_known_face r
            \<and> get_user_by_descriptor_id (repository self) (db w) (descriptor_id r)
                = Inr (Some u)
            \<and> user ac = Some u))
   \<and> (fst (AccessControlService_check_access_by_descriptor self room_id descriptor w)
        = Inr (Ok ac')
      \<and> is_known ac'
    \<longrightarrow> (\<exists>r u. recognize_by_descriptor (face_recognizer self) (cache w) descriptor = Inr r
            \<and> is_known_face r
            \<and> get_user_by_descriptor_id (repository self) (db w) (descriptor_id r)
                = Inr (Some u)
            \<and> user ac' = Some u))"
proof (intro conjI impI)
  assume "check_image_normalized (face_recognizer self) img = Inr True
      \<and> recognize (face_recognizer self) (cache w) img = Inr result
      \<and> is_known_face result
      \<and> get_user_by_descriptor_id (repository self) (db w) (descriptor_id result) = Inr None"
  then show "fst (AccessControlService_check_access_by_face self room_id img w) =
          Inr (Err (''Calculated descriptor is known but not bound to user. (descriptor_id = ''
                    @ str_optional_int (descriptor_id result) @ '')''))"
    by (simp add: AccessControlService_check_access_by_face_def
          return_io_def bind_io_def stateless_def
          recognizer_read_def repo_read_def)
next
  assume "check_descriptor_valid (face_recognizer self) descriptor = Inr True
      \<and> recognize_by_descriptor (face_recognizer self) (cache w) descriptor = Inr result'
      \<and> is_known_face result'
      \<and> get_user_by_descriptor_id (repository self) (db w) (descriptor_id result') = Inr None"
  then show "fst (AccessControlService_check_access_by_descriptor self room_id descriptor w) =
          Inr (Err (''Provided descriptor is known, but not bound to user. (descriptor_id = ''
                    @ str_optional_int (descriptor_id result') @ '')''))"
    by (simp add: AccessControlService_check_access_by_descriptor_def
          return_io_def bind_io_def stateless_def
          recognizer_read_def repo_read_def)
next
  assume "fst (AccessControlService_check_access_by_face self room_id img w) = Inr (Ok ac)
      \<and> is_known ac"
  then show "\<exists>r u. recognize (face_recognizer self) (cache w) img = Inr r
            \<and> is_known_face r
            \<and> get_user_by_descriptor_id (repository self) (db w) (descriptor_id r)
                = Inr (Some u)
            \<and> user ac = Some u"
    by (auto simp add: AccessControlService_check_access_by_face_def
          return_io_def bind_io_def stateless_def
          recognizer_read_def repo_read_def
          split: sum.splits if_splits option.splits prod.splits)
next
  assume "fst (AccessControlService_check_access_by_descriptor self room_id descriptor w)
        = Inr (Ok ac')
      \<and> is_known ac'"
  then show "\<exists>r u. recognize_by_descriptor (face_recognizer self) (cache w) descriptor = Inr r
            \<and> is_known_face r
            \<and> get_user_by_descriptor_id (repository self) (db w) (descriptor_id r)
                = Inr (Some u)
            \<and> user ac' = Some u"
    by (auto simp add: AccessControlService_check_access_by_descriptor_def
          return_io_def bind_io_def stateless_def
          recognizer_read_def repo_read_def
          split: sum.splits if_splits option.splits prod.splits)
qed

lemma recognize_enrolled:
  "0 < threshold \<Longrightarrow>
   FaceRecognizer_recognize_by_descriptor threshold [(7, [0, 0])] [0, 0] =
     \<lparr>is_known_face = True, descriptor_id = Some 7, distance = Some 0\<rparr>"
  by (simp add: FaceRecognizer_recognize_by_descriptor_def euclidean_distance_def)

theorem known_descriptor_without_user_is_error_witness:
  "fst (AccessControlService_check_access_by_face no_face_service 5 colour_image orphan_world)
     = Inr (Err ''Calculated descriptor is known but not bound to user. (descriptor_id = 7)'')
   \<and> fst (AccessControlService_check_access_by_descriptor no_face_service 5 [0, 0] orphan_world)
     = Inr (Err ''Provided descriptor is known, but not bound to user. (descriptor_id = 7)'')
   \<and> fst (AccessControlService_check_access_by_descriptor no_face_service 5 [0, 0]
             enrolled_world)
     = Inr (Ok \<lparr>is_known = True, have_access = Some True, user = Some user_ann\<rparr>)"
proof -
  let ?r = "\<lparr>is_known_face = True, descriptor_id = Some 7, distance = Some 0\<rparr>"
  have normalized:
    "check_image_normalized (face_recognizer no_face_service) colour_image = Inr True"
    by (simp add: no_face_service_def example_service_def FaceRecognizer_object_def
          FaceRecognizer_check_image_normalized_def OpenCV_colour)
      (simp add: colour_image_def)
  have valid: "check_descriptor_valid (face_recognizer no_face_service) [0, 0] = Inr True"
    by (simp add: no_face_service_def example_service_def FaceRecognizer_object_def
          FaceRecognizer_check_descriptor_valid_def)
  have seen:
    "recognize (face_recognizer no_face_service) (cache orphan_world) colour_image = Inr ?r"
    by (simp add: no_face_service_def example_service_def FaceRecognizer_object_def
          constant_embedder_def orphan_world_def example_world_def recognize_enrolled)
  have matched:
    "recognize_by_descriptor (face_recognizer no_face_service) (cache orphan_world) [0, 0]
       = Inr ?r"
    by (simp add: no_face_service_def example_service_def FaceRecognizer_object_def
          orphan_world_def example_world_def recognize_enrolled)
  have known: "is_known_face ?r"
    by simp
  have unbound:
    "get_user_by_descriptor_id (repository no_face_service) (db orphan_world)
       (descriptor_id ?r) = Inr None"
    by (simp add: no_face_service_def example_service_def Repository_object_def
          Repository_get_user_by_descriptor_id_def orphan_world_def example_world_def
          orphan_database_def user_ann_def)
  have bound:
    "fst (AccessControlService_check_access_by_descriptor no_face_service 5 [0, 0]
            enrolled_world)
     = Inr (Ok \<lparr>is_known = True, have_access = Some True, user = Some user_ann\<rparr>)"
    by (simp add: AccessControlService_check_access_by_descriptor_def
          return_io_def bind_io_def stateless_def
          recognizer_read_def repo_read_def
          no_face_service_def example_service_def FaceRecognizer_object_def
          FaceRecognizer_check_descriptor_valid_def enrolled_world_def example_world_def
          recognize_enrolled Repository_object_def Repository_get_user_by_descriptor_id_def
          Repository_check_access_permission_exist_def example_database_def user_ann_def)
  from known_descriptor_without_user_is_error
         [of no_face_service colour_image orphan_world ?r 5 "[0, 0]" ?r]
       normalized valid seen matched known unbound bound
  show ?thesis by (simp add: str_optional_int_def str_int_7)
qed

subsection \<open>Loading the cache\<close>

text \<open>
  C5.  \<open>AccessControlService_init\<close> reads every stored descriptor and gives the
  complete list of (id, features) pairs to \<open>update_descriptors\<close> in one call.  Every
  call of \<open>AccessControlService_update_user_descriptor\<close> that returns success has
  found the user, stored the descriptor, read every descriptor stored after that write
  and given the complete list to \<open>update_descriptors\<close> in one call: the recognizer
  is left in the state that this one call produced, and the service has made no other
  call on it.
\<close>

theorem cache_is_loaded_by_full_replace:
  "(get_all_face_descriptors (repository self) (db w) = Inr ds \<longrightarrow>
      AccessControlService_init self w =
        (fst (update_descriptors (face_recognizer self) (cache w)
                (map (\<lambda>d. (UserFaceDescriptor_id d, UserFaceDescriptor_features d)) ds)),
         w\<lparr>cache := snd (update_descriptors (face_recognizer self) (cache w)
                (map (\<lambda>d. (UserFaceDescriptor_id d, UserFaceDescriptor_features d)) ds)),
           calls := calls w @
             [(Awaited, GetAllFaceDescriptors),
              (Inline, UpdateDescriptors
                 (map (\<lambda>d. (UserFaceDescriptor_id d, UserFaceDescriptor_features d)) ds))]\<rparr>))
   \<and> (fst (AccessControlService_update_user_descriptor self user_id descriptor w) = Inr r
        \<and> success r \<longrightarrow>
        (\<exists>u db' ds' c'.
           get_user_by_id (repository self) (db w) user_id = Inr (Some u)
         \<and> update_descriptor_by_user_id (repository self) (db w) user_id descriptor
             = (Inr (), db')
         \<and> get_all_face_descriptors (repository self) db' = Inr ds'
         \<and> update_descriptors (face_recognizer self) (cache w)
               (map (\<lambda>d. (UserFaceDescriptor_id d, UserFaceDescriptor_features d)) ds')
             = (Inr (), c')
         \<and> snd (AccessControlService_update_user_descriptor self user_id descriptor w) =
             \<lparr>db = db', cache = c',
              calls = calls w @
                [(Awaited, GetUserById user_id),
                 (Awaited, UpdateDescriptorByUserId user_id descriptor),
                 (Awaited, GetAllFaceDescriptors),
                 (Inline, UpdateDescriptors
                    (map (\<lambda>d. (UserFaceDescriptor_id d, UserFaceDescriptor_features d))
                       ds'))]\<rparr>))"
proof (intro conjI impI)
  assume "get_all_face_descriptors (repository self) (db w) = Inr ds"
  then show "AccessControlService_init self w =
        (fst (update_descriptors (face_recognizer self) (cache w)
                (map (\<lambda>d. (UserFaceDescriptor_id d, UserFaceDescriptor_features d)) ds)),
         w\<lparr>cache := snd (update_descriptors (face_recognizer self) (cache w)
                (map (\<lambda>d. (UserFaceDescriptor_id d, UserFaceDescriptor_features d)) ds)),
           calls := calls w @
             [(Awaited, GetAllFaceDescriptors),
              (Inline, UpdateDescriptors
                 (map (\<lambda>d. (UserFaceDescriptor_id d, UserFaceDescriptor_features d)) ds))]\<rparr>)"
    by (simp add: AccessControlService_init_def AccessControlService_load_descriptors_def
          bind_io_def repo_read_def recognizer_write_def Let_def split: prod.splits)
next
  assume "fst (AccessControlService_update_user_descriptor self user_id descriptor w) = Inr r
        \<and> success r"
  then show "\<exists>u db' ds' c'.
           get_user_by_id (repository self) (db w) user_id = Inr (Some u)
         \<and> update_descriptor_by_user_id (repository self) (db w) user_id descriptor
             = (Inr (), db')
         \<and> get_all_face_descriptors (repository self) db' = Inr ds'
         \<and> update_descriptors (face_recognizer self) (cache w)
               (map (\<lambda>d. (UserFaceDescriptor_id d, UserFaceDescriptor_features d)) ds')
             = (Inr (), c')
         \<and> snd (AccessControlService_update_user_descriptor self user_id descriptor w) =
             \<lparr>db = db', cache = c',
              calls = calls w @
                [(Awaited, GetUserById user_id),
                 (Awaited, UpdateDescriptorByUserId user_id descriptor),
                 (Awaited, GetAllFaceDescriptors),
                 (Inline, UpdateDescriptors
                    (map (\<lambda>d. (UserFaceDescriptor_id d, UserFaceDescriptor_features d))
                       ds'))]\<rparr>"
    by (auto simp add: AccessControlService_update_user_descriptor_def
          AccessControlService_load_descriptors_def
          return_io_def bind_io_def repo_read_def repo_write_def
          recognizer_write_def Let_def
          split: sum.splits if_splits option.splits prod.splits)
qed

theorem cache_is_loaded_by_full_replace_witness:
  "AccessControlService_init no_face_service fresh_world =
     (Inr (),
      \<lparr>db = example_database, cache = [(7, [0, 0])],
       calls = [(Awaited, GetAllFaceDescriptors),
                (Inline, UpdateDescriptors [(7, [0, 0])])]\<rparr>)
   \<and> fst (AccessControlService_update_user_descriptor no_face_service 1 [1, 1] enrolled_world)
       = Inr (Result True)
   \<and> cache (snd (AccessControlService_update_user_descriptor no_face_service 1 [1, 1]
                    enrolled_world)) = [(8, [1, 1])]
   \<and> calls (snd (AccessControlService_update_user_descriptor no_face_service 1 [1, 1]
                    enrolled_world)) =
       [(Awaited, GetUserById 1), (Awaited, UpdateDescriptorByUserId 1 [1, 1]),
        (Awaited, GetAllFaceDescriptors), (Inline, UpdateDescriptors [(8, [1, 1])])]"
proof -
  have stored:
    "get_all_face_descriptors (repository no_face_service) (db fresh_world) =
       Inr [\<lparr>UserFaceDescriptor_id = 7, UserFaceDescriptor_features = [0, 0],
             UserFaceDescriptor_user_id = 1\<rparr>]"
    by (simp add: no_face_service_def example_service_def Repository_object_def
          Repository_get_all_face_descriptors_def fresh_world_def example_world_def
          example_database_def)
  have returned:
    "fst (AccessControlService_update_user_descriptor no_face_service 1 [1, 1] enrolled_world)
       = Inr (Result True) \<and> success (Result True :: unit Result)"
    by (simp add: AccessControlService_update_user_descriptor_def
          AccessControlService_load_descriptors_def
          return_io_def bind_io_def repo_read_def repo_write_def
          recognizer_write_def Let_def
          no_face_service_def example_service_def Repository_object_def
          Repository_get_user_by_id_def Repository_update_descriptor_by_user_id_def
          Repository_get_all_face_descriptors_def FaceRecognizer_object_def
          enrolled_world_def example_world_def example_database_def user_ann_def)
  from cache_is_loaded_by_full_replace
         [of no_face_service fresh_world _ 1 "[1, 1]" "Result True"]
       cache_is_loaded_by_full_replace
         [of no_face_service enrolled_world _ 1 "[1, 1]" "Result True"]
       stored returned
  show ?thesis
    by (simp add: no_face_service_def example_service_def Repository_object_def
          Repository_get_user_by_id_def Repository_update_descriptor_by_user_id_def
          Repository_get_all_face_descriptors_def FaceRecognizer_object_def
          FaceRecognizer_update_descriptors_def
          enrolled_world_def fresh_world_def example_world_def example_database_def
          user_ann_def)
qed

subsection \<open>Matching against the cache\<close>

lemma nearest_None_iff: "nearest q c = None \<longleftrightarrow> c = []"
  by (induction q c rule: nearest.induct) (auto split: option.splits)

text \<open>
  What the scan returns is a candidate of the cache that no other candidate beats:
  every other one is farther, or as far with an id that is not lower.
\<close>

lemma nearest_sound:
  "nearest q c = Some (i, m) \<Longrightarrow>
     (\<exists>d. (i, d) \<in> set c \<and> m = euclidean_distance q d)
     \<and> (\<forall>(j, e) \<in> set c.
           m < euclidean_distance q e \<or> (m = euclidean_distance q e \<and> i \<le> j))"
proof (induction q c arbitrary: i m rule: nearest.induct)
  case (1 q)
  then show ?case by simp
next
  case (2 q k d rest)
  show ?case
  proof (cases "nearest q rest")
    case None
    then have "rest = []" by (simp add: nearest_None_iff)
    with 2 None show ?thesis by auto
  next
    case (Some jm)
    obtain j n where jm: "jm = (j, n)" by (cases jm)
    from "2.IH" [of j n] Some jm
    have ih: "\<exists>d. (j, d) \<in> set rest \<and> n = euclidean_distance q d"
      "\<forall>(j', e) \<in> set rest.
          n < euclidean_distance q e \<or> (n = euclidean_distance q e \<and> j \<le> j')"
      by auto
    show ?thesis
    proof (cases "euclidean_distance q d < n \<or> (euclidean_distance q d = n \<and> k \<le> j)")
      case True
      with "2.prems" Some jm have im: "i = k" "m = euclidean_distance q d" by auto
      from True ih(2) im show ?thesis by fastforce
    next
      case False
      with "2.prems" Some jm have im: "i = j" "m = n" by auto
      from False ih im show ?thesis by fastforce
    qed
  qed
qed

lemma unbeaten_candidate_unique:
  fixes c :: DescriptorCache
  assumes a1: "\<exists>d. (i, d) \<in> set c \<and> m = euclidean_distance q d"
    and a2: "\<forall>(j, e) \<in> set c.
               m < euclidean_distance q e \<or> (m = euclidean_distance q e \<and> i \<le> j)"
    and b1: "\<exists>d. (i', d) \<in> set c \<and> m' = euclidean_distance q d"
    and b2: "\<forall>(j, e) \<in> set c.
               m' < euclidean_distance q e \<or> (m' = euclidean_distance q e \<and> i' \<le> j)"
  shows "i = i' \<and> m = m'"
proof -
  from a1 obtain d where d: "(i, d) \<in> set c" "m = euclidean_distance q d" by blast
  from b1 obtain d' where d': "(i', d') \<in> set c" "m' = euclidean_distance q d'" by blast
  from bspec [OF a2 d'(1)]
  have "m < euclidean_distance q d' \<or> (m = euclidean_distance q d' \<and> i \<le> i')"
    by simp
  with d'(2) have x: "m < m' \<or> (m = m' \<and> i \<le> i')" by simp
  from bspec [OF b2 d(1)]
  have "m' < euclidean_distance q d \<or> (m' = euclidean_distance q d \<and> i' \<le> i)"
    by simp
  with d(2) have y: "m' < m \<or> (m' = m \<and> i' \<le> i)" by simp
  from x y show ?thesis by auto
qed

lemma nearest_set_cong:
  assumes "set c1 = set c2"
  shows "nearest q c1 = nearest q c2"
proof (cases "nearest q c1")
  case None
  then have "c1 = []" by (simp add: nearest_None_iff)
  with assms have "c2 = []" by simp
  with None show ?thesis by simp
next
  case (Some im)
  obtain i m where im: "im = (i, m)" by (cases im)
  from Some have "c1 \<noteq> []" by auto
  with assms have "c2 \<noteq> []" by auto
  then obtain i' m' where s2: "nearest q c2 = Some (i', m')"
    using nearest_None_iff [of q c2] by (cases "nearest q c2") auto
  from nearest_sound [OF s2] nearest_sound [of q c1 i m] Some im assms
  have "i = i' \<and> m = m'"
    using unbeaten_candidate_unique [of i c2 m q i' m'] by simp
  with Some im s2 show ?thesis by simp
qed

lemma distinct_fold_update:
  "distinct (map fst acc) \<Longrightarrow>
   distinct (map fst (fold (\<lambda>(k, v) new. AList.update k v new) pairs acc))"
  by (induction pairs arbitrary: acc) (auto simp: distinct_update)

lemma distinct_update_descriptors:
  "distinct (map fst (FaceRecognizer_update_descriptors old pairs))"
  by (simp add: FaceRecognizer_update_descriptors_def distinct_fold_update)

lemma nearest_tied: "nearest [0, 0] tied_cache = Some (1, 0)"
  by (simp add: tied_cache_def euclidean_distance_def)

lemma nearest_tied_far: "nearest [1, 0] tied_cache = Some (1, 1)"
  by (simp add: tied_cache_def euclidean_distance_def)

text \<open>
  C1.  \<open>FaceRecognizer_recognize_by_descriptor\<close> measures the query against every
  cached descriptor.  When it reports a known face, the match is a cached candidate
  whose Euclidean distance is strictly below the threshold, is the minimum over the
  cache, and whose id is the lowest among the candidates at that minimum.  When it
  reports an unknown face, no cached descriptor is strictly below the threshold.  After
  \<open>FaceRecognizer_update_descriptors\<close> with the empty list every query is unknown.
\<close>

theorem recognize_by_descriptor_nearest_under_threshold:
  "(is_known_face (FaceRecognizer_recognize_by_descriptor threshold c q) \<longrightarrow>
      (\<exists>i d. (i, d) \<in> set c
         \<and> descriptor_id (FaceRecognizer_recognize_by_descriptor threshold c q) = Some i
         \<and> distance (FaceRecognizer_recognize_by_descriptor threshold c q)
             = Some (euclidean_distance q d)
         \<and> euclidean_distance q d < threshold
         \<and> (\<forall>(j, e) \<in> set c. euclidean_distance q d \<le> euclidean_distance q e)
         \<and> (\<forall>(j, e) \<in> set c.
               euclidean_distance q e = euclidean_distance q d \<longrightarrow> i \<le> j)))
   \<and> (\<not> is_known_face (FaceRecognizer_recognize_by_descriptor threshold c q) \<longrightarrow>
         (\<forall>(j, e) \<in> set c. threshold \<le> euclidean_distance q e))
   \<and> \<not> is_known_face
         (FaceRecognizer_recognize_by_descriptor threshold
            (FaceRecognizer_update_descriptors old []) q)"
proof (cases "nearest q c")
  case None
  then have "c = []" by (simp add: nearest_None_iff)
  then show ?thesis
    by (simp add: FaceRecognizer_recognize_by_descriptor_def
          FaceRecognizer_update_descriptors_def)
next
  case (Some im)
  obtain i m where im: "im = (i, m)" by (cases im)
  from nearest_sound [of q c i m] Some im
  obtain d where d: "(i, d) \<in> set c" "m = euclidean_distance q d"
    and least: "\<forall>(j, e) \<in> set c.
                  m < euclidean_distance q e \<or> (m = euclidean_distance q e \<and> i \<le> j)"
    by auto
  show ?thesis
  proof (cases "m < threshold")
    case True
    with Some im d least show ?thesis
      by (fastforce simp add: FaceRecognizer_recognize_by_descriptor_def
            FaceRecognizer_update_descriptors_def)
  next
    case False
    with Some im d least show ?thesis
      by (fastforce simp add: FaceRecognizer_recognize_by_descriptor_def
            FaceRecognizer_update_descriptors_def)
  qed
qed

theorem recognize_by_descriptor_nearest_under_threshold_witness:
  "FaceRecognizer_recognize_by_descriptor (6 / 10) tied_cache [0, 0] =
     \<lparr>is_known_face = True, descriptor_id = Some 1, distance = Some 0\<rparr>
   \<and> \<not> is_known_face (FaceRecognizer_recognize_by_descriptor (6 / 10) tied_cache [1, 0])
   \<and> \<not> is_known_face
         (FaceRecognizer_recognize_by_descriptor (6 / 10)
            (FaceRecognizer_update_descriptors tied_cache []) [0, 0])"
proof -
  have hit: "is_known_face (FaceRecognizer_recognize_by_descriptor (6 / 10) tied_cache [0, 0])"
    by (simp add: FaceRecognizer_recognize_by_descriptor_def nearest_tied)
  have miss:
    "\<not> is_known_face (FaceRecognizer_recognize_by_descriptor (6 / 10) tied_cache [1, 0])"
    by (simp add: FaceRecognizer_recognize_by_descriptor_def nearest_tied_far)
  from recognize_by_descriptor_nearest_under_threshold
         [of "6 / 10" tied_cache "[0, 0]" tied_cache]
       recognize_by_descriptor_nearest_under_threshold
         [of "6 / 10" tied_cache "[1, 0]" tied_cache]
       hit miss
  show ?thesis
    by (simp add: FaceRecognizer_recognize_by_descriptor_def nearest_tied)
qed

text \<open>
  C7.  The result of \<open>FaceRecognizer_recognize_by_descriptor\<close> is determined by the
  query, the threshold and the mapping the cache holds, and by nothing else: two caches
  with the same entries, whatever the order in which they were inserted, answer every
  query alike.  This holds in particular for the caches that two calls of
  \<open>FaceRecognizer_update_descriptors\<close> leave behind.
\<close>

theorem recognize_by_descriptor_depends_on_mapping_only:
  "(distinct (map fst c1) \<and> distinct (map fst c2) \<and> map_of c1 = map_of c2 \<longrightarrow>
      FaceRecognizer_recognize_by_descriptor threshold c1 q =
      FaceRecognizer_recognize_by_descriptor threshold c2 q)
   \<and> (map_of (FaceRecognizer_update_descriptors old1 pairs1) =
        map_of (FaceRecognizer_update_descriptors old2 pairs2) \<longrightarrow>
      FaceRecognizer_recognize_by_descriptor threshold
        (FaceRecognizer_update_descriptors old1 pairs1) q =
      FaceRecognizer_recognize_by_descriptor threshold
        (FaceRecognizer_update_descriptors old2 pairs2) q)"
proof -
  have same: "FaceRecognizer_recognize_by_descriptor threshold a q =
              FaceRecognizer_recognize_by_descriptor threshold b q"
    if "distinct (map fst a)" "distinct (map fst b)" "map_of a = map_of b"
    for a b :: DescriptorCache
  proof -
    from that have "set a = set b" by (simp add: map_of_inject_set)
    then have "nearest q a = nearest q b" by (rule nearest_set_cong)
    then show ?thesis by (simp add: FaceRecognizer_recognize_by_descriptor_def)
  qed
  show ?thesis
    using same [of c1 c2]
      same [of "FaceRecognizer_update_descriptors old1 pairs1"
               "FaceRecognizer_update_descriptors old2 pairs2"]
    by (simp add: distinct_update_descriptors)
qed

theorem recognize_by_descriptor_depends_on_mapping_only_witness:
  "FaceRecognizer_recognize_by_descriptor (6 / 10) tied_cache [0, 0] =
   FaceRecognizer_recognize_by_descriptor (6 / 10) tied_cache_reordered [0, 0]
   \<and> FaceRecognizer_recognize_by_descriptor (6 / 10)
       (FaceRecognizer_update_descriptors [] tied_cache) [0, 0] =
     FaceRecognizer_recognize_by_descriptor (6 / 10)
       (FaceRecognizer_update_descriptors tied_cache tied_cache) [0, 0]"
proof -
  have d1: "distinct (map fst tied_cache)"
    by (simp add: tied_cache_def)
  have d2: "distinct (map fst tied_cache_reordered)"
    by (simp add: tied_cache_reordered_def)
  have m: "map_of tied_cache = map_of tied_cache_reordered"
    by (rule ext) (simp add: tied_cache_def tied_cache_reordered_def)
  have u: "map_of (FaceRecognizer_update_descriptors [] tied_cache) =
           map_of (FaceRecognizer_update_descriptors tied_cache tied_cache)"
    by (simp add: FaceRecognizer_update_descriptors_def)
  from recognize_by_descriptor_depends_on_mapping_only
         [of tied_cache tied_cache_reordered "6 / 10" "[0, 0]" "[]" tied_cache
             tied_cache tied_cache]
       d1 d2 m u
  show ?thesis by simp
qed

subsection \<open>Which calls leave the scheduler thread\<close>

text \<open>
  C8.  In every run of \<open>AccessControlService_check_access_by_face\<close>,
  \<open>AccessControlService_check_access_by_descriptor\<close>,
  \<open>AccessControlService_calculate_descriptor\<close>,
  \<open>AccessControlService_update_user_descriptor\<close> and \<open>AccessControlService_init\<close>,
  whatever the collaborators answer or raise, each call the run adds to the log that
  detects or embeds (\<open>Normalize\<close>, \<open>CalculateDescriptor\<close>, \<open>Recognize\<close>) was made
  through \<^verbatim>\<open>to_thread\<close> and awaited, and each call made inline is a validity check or a
  read or write of the descriptor cache.  The other methods of the service call the
  repository only.
\<close>

theorem cpu_bound_calls_go_to_worker_thread:
  "dispatch_discipline
     (new_calls w (snd (AccessControlService_check_access_by_face self room_id img w)))
   \<and> dispatch_discipline
       (new_calls w (snd (AccessControlService_check_access_by_descriptor
                            self room_id descriptor w)))
   \<and> dispatch_discipline
       (new_calls w (snd (AccessControlService_calculate_descriptor self img w)))
   \<and> dispatch_discipline
       (new_calls w (snd (AccessControlService_update_user_descriptor
                            self user_id descriptor w)))
   \<and> dispatch_discipline (new_calls w (snd (AccessControlService_init self w)))"
proof (intro conjI)
  show "dispatch_discipline
     (new_calls w (snd (AccessControlService_check_access_by_face self room_id img w)))"
    by (auto simp add: AccessControlService_check_access_by_face_def
          return_io_def bind_io_def stateless_def recognizer_read_def repo_read_def
          dispatch_discipline_def new_calls_def
          split: sum.splits if_splits option.splits prod.splits)
next
  show "dispatch_discipline
       (new_calls w (snd (AccessControlService_check_access_by_descriptor
                            self room_id descriptor w)))"
    by (auto simp add: AccessControlService_check_access_by_descriptor_def
          return_io_def bind_io_def stateless_def recognizer_read_def repo_read_def
          dispatch_discipline_def new_calls_def
          split: sum.splits if_splits option.splits prod.splits)
next
  show "dispatch_discipline
       (new_calls w (snd (AccessControlService_calculate_descriptor self img w)))"
    by (auto simp add: AccessControlService_calculate_descriptor_def
          return_io_def bind_io_def stateless_def
          dispatch_discipline_def new_calls_def
          split: sum.splits if_splits option.splits prod.splits)
next
  show "dispatch_discipline
       (new_calls w (snd (AccessControlService_update_user_descriptor
                            self user_id descriptor w)))"
    by (auto simp add: AccessControlService_update_user_descriptor_def
          AccessControlService_load_descriptors_def
          return_io_def bind_io_def repo_read_def repo_write_def recognizer_write_def
          dispatch_discipline_def new_calls_def Let_def
          split: sum.splits if_splits option.splits prod.splits)
next
  show "dispatch_discipline (new_calls w (snd (AccessControlService_init self w)))"
    by (auto simp add: AccessControlService_init_def
          AccessControlService_load_descriptors_def
          bind_io_def repo_read_def recognizer_write_def
          dispatch_discipline_def new_calls_def Let_def
          split: sum.splits if_splits option.splits prod.splits)
qed

text \<open>
  A run that reaches the embedder, and one that recognizes a face: the logs they add,
  both within the discipline.  A log with an inline \<open>Normalize\<close> is outside it.
\<close>

theorem cpu_bound_calls_go_to_worker_thread_witness:
  "new_calls fresh_world
      (snd (AccessControlService_calculate_descriptor face_service colour_image fresh_world))
     = [(Inline, CheckImageValid colour_image), (ToThread, Normalize colour_image),
        (ToThread, CalculateDescriptor colour_image)]
   \<and> new_calls enrolled_world
        (snd (AccessControlService_check_access_by_face face_service 5 colour_image
                enrolled_world))
     = [(Inline, CheckImageNormalized colour_image), (ToThread, Recognize colour_image),
        (Awaited, GetUserByDescriptorId (Some 7)), (Awaited, CheckAccessPermissionExist 1 5)]
   \<and> dispatch_discipline
        [(Inline, CheckImageValid colour_image), (ToThread, Normalize colour_image),
         (ToThread, CalculateDescriptor colour_image)]
   \<and> dispatch_discipline
        [(Inline, CheckImageNormalized colour_image), (ToThread, Recognize colour_image),
         (Awaited, GetUserByDescriptorId (Some 7)), (Awaited, CheckAccessPermissionExist 1 5)]
   \<and> \<not> dispatch_discipline [(Inline, Normalize colour_image)]"
proof -
  have embedded:
    "new_calls fresh_world
      (snd (AccessControlService_calculate_descriptor face_service colour_image fresh_world))
     = [(Inline, CheckImageValid colour_image), (ToThread, Normalize colour_image),
        (ToThread, CalculateDescriptor colour_image)]"
    by (simp add: AccessControlService_calculate_descriptor_def
          return_io_def bind_io_def stateless_def new_calls_def
          face_service_def example_service_def FaceImageNormalizer_object_def
          FaceImageNormalizer_normalize_def FaceRecognizer_object_def OpenCV_colour
          keen_detector_def plain_cropper_def constant_embedder_def
          fresh_world_def example_world_def)
  have recognized:
    "new_calls enrolled_world
        (snd (AccessControlService_check_access_by_face face_service 5 colour_image
                enrolled_world))
     = [(Inline, CheckImageNormalized colour_image), (ToThread, Recognize colour_image),
        (Awaited, GetUserByDescriptorId (Some 7)), (Awaited, CheckAccessPermissionExist 1 5)]"
    by (simp add: AccessControlService_check_access_by_face_def
          return_io_def bind_io_def stateless_def recognizer_read_def repo_read_def
          new_calls_def face_service_def example_service_def FaceRecognizer_object_def
          FaceRecognizer_check_image_normalized_def OpenCV_colour constant_embedder_def
          recognize_enrolled Repository_object_def Repository_get_user_by_descriptor_id_def
          Repository_check_access_permission_exist_def
          enrolled_world_def example_world_def example_database_def user_ann_def)
      (simp add: colour_image_def)
  have outside: "\<not> dispatch_discipline [(Inline, Normalize colour_image)]"
    by (simp add: dispatch_discipline_def)
  from cpu_bound_calls_go_to_worker_thread
         [of fresh_world face_service 5 colour_image "[0, 0]" 1]
       cpu_bound_calls_go_to_worker_thread
         [of enrolled_world face_service 5 colour_image "[0, 0]" 1]
       embedded recognized outside
  show ?thesis by simp
qed

end
